theory Spec2Isabelle
  imports Complex_Main
begin

section \<open>Wall distance by the Poisson problem: the driver and its post-processor\<close>

text \<open>
  The program \<^verbatim>\<open>wallDist.cc\<close> solves a Poisson problem with the deal.II library and
  derives two wall-distance estimates from the solution and its gradient.  The theory
  embeds the functions of \<^verbatim>\<open>wallDist.cc\<close>; the library objects they call are not part
  of the program and appear as parameters.

  Conventions of the embedding:
  \<^item> \<^verbatim>\<open>double\<close> is the type \<open>real\<close>: rounding is not modelled, and the value of
    \<^verbatim>\<open>std::sqrt\<close> at a negative argument (a NaN, which \<open>real\<close> does not have) is the
    error value \<open>DomainError\<close>;
  \<^item> \<^verbatim>\<open>std::vector\<close>, \<^verbatim>\<open>Vector<double>\<close>, \<^verbatim>\<open>Tensor<1,dim>\<close> and \<^verbatim>\<open>Point<dim>\<close>
    are lists; an access outside a list (undefined behaviour of \<^verbatim>\<open>operator[]\<close>, or an
    index assertion of the library) is the error value \<open>OutOfRange\<close>;
  \<^item> the template parameter \<^verbatim>\<open>dim\<close> is a natural number, written \<open>dimn\<close>;
  \<^item> an exception or a failed assertion is the left summand of \<open>exc + 'a\<close>;
  \<^item> the macro \<^verbatim>\<open>Assert\<close> of the library checks its condition in a debug build and
    is empty in a release build: the build is the parameter \<open>debug\<close>.
\<close>

subsection \<open>Exceptions and sequencing\<close>

datatype exc =
    ExcInternalError
  | ExcMessage string
  | OutOfRange
  | DomainError
  | NoConvergence nat real

definition bind_exc :: "exc + 'a \<Rightarrow> ('a \<Rightarrow> exc + 'b) \<Rightarrow> exc + 'b" where
  "bind_exc r f = (case r of Inl e \<Rightarrow> Inl e | Inr x \<Rightarrow> f x)"

definition Assert :: "bool \<Rightarrow> bool \<Rightarrow> exc \<Rightarrow> exc + unit" where
  "Assert debug cond e = (if debug \<and> \<not> cond then Inl e else Inr ())"

definition vec_at :: "'a list \<Rightarrow> nat \<Rightarrow> exc + 'a" where
  "vec_at xs i = (if i < length xs then Inr (xs ! i) else Inl OutOfRange)"

definition vec_set :: "'a list \<Rightarrow> nat \<Rightarrow> 'a \<Rightarrow> exc + 'a list" where
  "vec_set xs i x = (if i < length xs then Inr (xs[i := x]) else Inl OutOfRange)"

definition std_sqrt :: "real \<Rightarrow> exc + real" where
  "std_sqrt x = (if x < 0 then Inl DomainError else Inr (sqrt x))"

text \<open>\<^verbatim>\<open>static_cast<const unsigned int>\<close> of a \<^verbatim>\<open>size_t\<close>: the low 32 bits.\<close>

definition to_unsigned_int :: "nat \<Rightarrow> nat" where
  "to_unsigned_int n = n mod 2 ^ 32"

subsection \<open>The coefficient functions\<close>

text \<open>\<^verbatim>\<open>RightHandSide<dim>::value\<close> and \<^verbatim>\<open>BoundaryValues<dim>::value\<close>: a point and a
  component index come in.\<close>

definition RightHandSide_value :: "real list \<Rightarrow> nat \<Rightarrow> real" where
  "RightHandSide_value p component = (let return_value = 1 in return_value)"

definition BoundaryValues_value :: "real list \<Rightarrow> nat \<Rightarrow> real" where
  "BoundaryValues_value p component = 0.0"

subsection \<open>The post-processor\<close>

text \<open>The contraction \<^verbatim>\<open>duh[q] * duh[q]\<close> of two tensors of rank one.\<close>

definition scalar_product :: "real list \<Rightarrow> real list \<Rightarrow> real" where
  "scalar_product a b = sum_list (map (\<lambda>(x, y). x * y) (zip a b))"

text \<open>The inner loop over \<^verbatim>\<open>d\<close>: it copies the gradient into the output vector and
  accumulates \<^verbatim>\<open>l1\<close>.\<close>

function component_loop :: "nat \<Rightarrow> nat \<Rightarrow> real list \<Rightarrow> real list \<Rightarrow> real \<Rightarrow> exc + (real list \<times> real)" where
  "component_loop dimn d g v l1 =
     (if d < dimn then
        bind_exc (vec_at g d) (\<lambda>gd.
        bind_exc (vec_set v d gd) (\<lambda>v'.
        component_loop dimn (Suc d) g v' (l1 + \<bar>gd\<bar>)))
      else Inr (v, l1))"
  by pat_completeness auto
termination
  by (relation "measure (\<lambda>(dimn, d, g, v, l1). dimn - d)") auto

text \<open>The body of the loop over the quadrature points, for the value \<open>u\<close> = \<^verbatim>\<open>uh[q]\<close>,
  the gradient \<open>g\<close> = \<^verbatim>\<open>duh[q]\<close> and the output vector \<open>v\<close> = \<^verbatim>\<open>computed_quantities[q]\<close>.\<close>

definition point_body :: "bool \<Rightarrow> nat \<Rightarrow> real \<Rightarrow> real list \<Rightarrow> real list \<Rightarrow> exc + real list" where
  "point_body debug dimn u g v =
     (let l2_square = scalar_product g g in
      bind_exc (component_loop dimn 0 g v 0.0) (\<lambda>(v1, l1).
      bind_exc (Assert debug (l2_square + 2.0 * u \<ge> 0.0) (ExcMessage ''Sqrt of negative!'')) (\<lambda>_.
      bind_exc (std_sqrt (max (l2_square + 2.0 * u) 0.0)) (\<lambda>s.
      bind_exc (vec_set v1 dimn (s - l1)) (\<lambda>v2.
      bind_exc (std_sqrt (max (l2_square + 2.0 * u) 0.0)) (\<lambda>s'.
      vec_set v2 (dimn + 1) (s' + l1)))))))"

function quadrature_loop ::
  "bool \<Rightarrow> nat \<Rightarrow> nat \<Rightarrow> nat \<Rightarrow> real list \<Rightarrow> real list list \<Rightarrow> real list list \<Rightarrow> exc + real list list" where
  "quadrature_loop debug dimn n q uh duh cq =
     (if q < n then
        bind_exc (vec_at duh q) (\<lambda>g.
        bind_exc (vec_at cq q) (\<lambda>v.
        bind_exc (vec_at uh q) (\<lambda>u.
        bind_exc (point_body debug dimn u g v) (\<lambda>v'.
        quadrature_loop debug dimn n (Suc q) uh duh (cq[q := v'])))))
      else Inr cq)"
  by pat_completeness auto
termination
  by (relation "measure (\<lambda>(debug, dimn, n, q, uh, duh, cq). n - q)") auto

text \<open>\<^verbatim>\<open>Postprocessor<dim>::compute_derived_quantities_scalar\<close>.  The result is the final
  content of \<^verbatim>\<open>computed_quantities\<close>.  The third assertion reads
  \<^verbatim>\<open>computed_quantities[0]\<close>, which does not exist when the vector is empty.\<close>

definition compute_derived_quantities_scalar ::
  "bool \<Rightarrow> nat \<Rightarrow> real list \<Rightarrow> real list list \<Rightarrow> real list list list \<Rightarrow> real list list \<Rightarrow>
   real list list \<Rightarrow> real list list \<Rightarrow> exc + real list list" where
  "compute_derived_quantities_scalar debug dimn uh duh dduh normals points computed_quantities =
     (let n_quadrature_points = to_unsigned_int (length uh) in
      bind_exc (Assert debug (length duh = n_quadrature_points) ExcInternalError) (\<lambda>_.
      bind_exc (Assert debug (length computed_quantities = n_quadrature_points) ExcInternalError) (\<lambda>_.
      bind_exc (if debug then
                  bind_exc (vec_at computed_quantities 0) (\<lambda>v0.
                  Assert debug (length v0 = dimn + 2) ExcInternalError)
                else Inr ()) (\<lambda>_.
      quadrature_loop debug dimn n_quadrature_points 0 uh duh computed_quantities))))"

text \<open>\<^verbatim>\<open>Postprocessor<dim>::get_names\<close>: the loop of \<^verbatim>\<open>push_back\<close>, then the two scalar
  names.\<close>

function names_loop :: "nat \<Rightarrow> nat \<Rightarrow> string list \<Rightarrow> string list" where
  "names_loop dimn d names =
     (if d < dimn then names_loop dimn (Suc d) (names @ [''Diretion'']) else names)"
  by pat_completeness auto
termination
  by (relation "measure (\<lambda>(dimn, d, names). dimn - d)") auto

definition get_names :: "nat \<Rightarrow> string list" where
  "get_names dimn =
     (let names = names_loop dimn 0 [];
          names = names @ [''sMin''];
          names = names @ [''sMax'']
      in names)"

datatype DataComponentInterpretation =
    component_is_scalar
  | component_is_part_of_vector

text \<open>\<^verbatim>\<open>Postprocessor<dim>::get_data_component_interpretation\<close>: a vector of \<^verbatim>\<open>dim\<close>
  copies, then two \<^verbatim>\<open>push_back\<close>.\<close>

definition get_data_component_interpretation :: "nat \<Rightarrow> DataComponentInterpretation list" where
  "get_data_component_interpretation dimn =
     (let interpretation = replicate dimn component_is_part_of_vector;
          interpretation = interpretation @ [component_is_scalar];
          interpretation = interpretation @ [component_is_scalar]
      in interpretation)"

text \<open>\<^verbatim>\<open>Postprocessor<dim>::get_needed_update_flags\<close>: the two flags joined by \<^verbatim>\<open>|\<close>.\<close>

datatype UpdateFlags = update_values | update_gradients | update_quadrature_points | update_JxW_values

definition get_needed_update_flags :: "UpdateFlags set" where
  "get_needed_update_flags = {update_values} \<union> {update_gradients}"

text \<open>The post-processor object as the library sees it: its four virtual functions.\<close>

record DataPostprocessor =
  pp_compute :: "real list \<Rightarrow> real list list \<Rightarrow> real list list list \<Rightarrow> real list list \<Rightarrow>
    real list list \<Rightarrow> real list list \<Rightarrow> exc + real list list"
  pp_names :: "string list"
  pp_interpretation :: "DataComponentInterpretation list"
  pp_update_flags :: "UpdateFlags set"

definition Postprocessor :: "bool \<Rightarrow> nat \<Rightarrow> DataPostprocessor" where
  "Postprocessor debug dimn =
     \<lparr>pp_compute = compute_derived_quantities_scalar debug dimn,
      pp_names = get_names dimn,
      pp_interpretation = get_data_component_interpretation dimn,
      pp_update_flags = get_needed_update_flags\<rparr>"

subsection \<open>The solver control and the conjugate-gradient iteration\<close>

record SolverControl =
  maxsteps :: nat
  tol :: real

datatype State = iterate | success | failure

text \<open>Modelled from the spec: the termination test \<^verbatim>\<open>SolverControl::check\<close> belongs to the
  deal.II library and is not in \<^verbatim>\<open>wallDist.cc\<close>.  The spec: ``Termination:
  the residual norm is at most 1e-12 OR k = 1000; the latter is a failure.''  Convergence is
  tested first, so the cap fails only an iteration that has not converged.\<close>

definition check :: "SolverControl \<Rightarrow> nat \<Rightarrow> real \<Rightarrow> State" where
  "check sc step check_value =
     (if check_value \<le> tol sc then success
      else if step \<ge> maxsteps sc then failure
      else iterate)"

text \<open>Modelled from the spec: \<^verbatim>\<open>SolverCG::solve\<close> belongs to the deal.II library and is
  not in \<^verbatim>\<open>wallDist.cc\<close>.  The arithmetic of the preconditioned iteration is the parameter
  \<open>it\<close>: \<open>it k\<close> is the \<open>k\<close>-th iterate with the norm of its residual.  The loop asks
  the solver control after every step; it returns the iterate and the step count on
  success, and on failure it throws \<^verbatim>\<open>SolverControl::NoConvergence\<close>, carrying the step
  and the residual (\<^verbatim>\<open>solve\<close> returns \<^verbatim>\<open>void\<close>: the exception is how the library
  lets the caller know).\<close>

function SolverCG_solve :: "SolverControl \<Rightarrow> (nat \<Rightarrow> 'x \<times> real) \<Rightarrow> nat \<Rightarrow> exc + ('x \<times> nat)" where
  "SolverCG_solve sc it k =
     (case check sc k (snd (it k)) of
        success \<Rightarrow> Inr (fst (it k), k)
      | failure \<Rightarrow> Inl (NoConvergence k (snd (it k)))
      | iterate \<Rightarrow> SolverCG_solve sc it (Suc k))"
  by pat_completeness auto
termination
  by (relation "measure (\<lambda>(sc, it, k). maxsteps sc - k)")
     (auto simp add: check_def split: if_splits)

text \<open>\<^verbatim>\<open>PreconditionSSOR<>\<close> after \<^verbatim>\<open>initialize (matrix, omega)\<close>: the matrix and the relaxation parameter.\<close>

record 'a PreconditionSSOR =
  precondition_matrix :: 'a
  relaxation :: real

definition initialize :: "'a \<Rightarrow> real \<Rightarrow> 'a PreconditionSSOR" where
  "initialize m om = \<lparr>precondition_matrix = m, relaxation = om\<rparr>"

subsection \<open>The driver \<^verbatim>\<open>Step4<dim>\<close>\<close>

text \<open>What the program does to its surroundings: the tokens sent to \<^verbatim>\<open>std::cout\<close>, and
  the files of the working directory, each with the blocks written to it.\<close>

datatype tok = Str string | Num nat | Endl

record 'f world =
  cout :: "tok list"
  files :: "string \<rightharpoonup> 'f list"

definition print :: "tok list \<Rightarrow> 'f world \<Rightarrow> 'f world" where
  "print ts w = w\<lparr>cout := cout w @ ts\<rparr>"

text \<open>A statement that may throw and acts on the surroundings; the effects made before
  an exception stay.\<close>

definition bind_io ::
  "('w \<Rightarrow> (exc + 'a) \<times> 'w) \<Rightarrow> ('a \<Rightarrow> 'w \<Rightarrow> (exc + 'b) \<times> 'w) \<Rightarrow> 'w \<Rightarrow> (exc + 'b) \<times> 'w" where
  "bind_io m f w = (case m w of (Inl e, w') \<Rightarrow> (Inl e, w') | (Inr x, w') \<Rightarrow> f x w')"

text \<open>The members of \<^verbatim>\<open>Step4<dim>\<close>.  The triangulation, the finite element and the
  degree-of-freedom handler are one opaque library value, the sparsity pattern and the
  matrix another.\<close>

record ('g, 'a) Step4 =
  discretisation :: 'g
  system_matrix :: 'a
  solution :: "real list"
  system_rhs :: "real list"

text \<open>The data a \<^verbatim>\<open>DataOut\<close> object holds: the handler attached and the vectors added,
  each with a name or with a post-processor.\<close>

datatype data_vector = Named "real list" string | Derived "real list" DataPostprocessor

definition attach_dof_handler :: "'g \<Rightarrow> 'g \<times> data_vector list" where
  "attach_dof_handler g = (g, [])"

definition add_data_vector :: "'g \<times> data_vector list \<Rightarrow> data_vector \<Rightarrow> 'g \<times> data_vector list" where
  "add_data_vector data_out d = (fst data_out, snd data_out @ [d])"

text \<open>The operations of the deal.II library that the driver calls, as parameters; each
  may throw.  \<open>assemble_cells\<close> stands for the loop over the cells in
  \<^verbatim>\<open>assemble_system\<close>, which only calls the library and the right-hand side;
  \<open>solver_solve\<close> is \<^verbatim>\<open>SolverCG<>::solve\<close> under a solver control: for a
  preconditioner, a matrix, a start vector and a right-hand side it returns the solution
  vector with the number of the last step, or throws.\<close>

record ('g, 'a, 'p, 'f) deal_II =
  debug_build :: bool
  hyper_cube :: "'g \<Rightarrow> real \<Rightarrow> real \<Rightarrow> exc + 'g"
  refine_global :: "'g \<Rightarrow> nat \<Rightarrow> exc + 'g"
  n_active_cells :: "'g \<Rightarrow> nat"
  n_cells :: "'g \<Rightarrow> nat"
  distribute_dofs :: "'g \<Rightarrow> exc + 'g"
  n_dofs :: "'g \<Rightarrow> nat"
  make_sparsity_pattern :: "'g \<Rightarrow> exc + 'a"
  assemble_cells :: "'g \<Rightarrow> (real list \<Rightarrow> nat \<Rightarrow> real) \<Rightarrow> 'a \<Rightarrow> real list \<Rightarrow> exc + ('a \<times> real list)"
  interpolate_boundary_values :: "'g \<Rightarrow> nat \<Rightarrow> (real list \<Rightarrow> nat \<Rightarrow> real) \<Rightarrow> exc + (nat \<rightharpoonup> real)"
  apply_boundary_values ::
    "(nat \<rightharpoonup> real) \<Rightarrow> 'a \<Rightarrow> real list \<Rightarrow> real list \<Rightarrow> exc + ('a \<times> real list \<times> real list)"
  solver_solve ::
    "SolverControl \<Rightarrow> 'a PreconditionSSOR \<Rightarrow> 'a \<Rightarrow> real list \<Rightarrow> real list \<Rightarrow> exc + (real list \<times> nat)"
  build_patches :: "'g \<times> data_vector list \<Rightarrow> exc + 'p"
  write_vtk :: "'p \<Rightarrow> exc + 'f"

definition make_grid ::
  "('g, 'a, 'p, 'f) deal_II \<Rightarrow> ('g, 'a) Step4 \<Rightarrow> 'f world \<Rightarrow> (exc + ('g, 'a) Step4) \<times> 'f world" where
  "make_grid lib s w =
     (case bind_exc (hyper_cube lib (discretisation s) (- 1) 1) (\<lambda>g. refine_global lib g 4) of
        Inl e \<Rightarrow> (Inl e, w)
      | Inr g \<Rightarrow>
          (Inr (s\<lparr>discretisation := g\<rparr>),
           print [Str ''   Number of active cells: '', Num (n_active_cells lib g), Endl,
                  Str ''   Total number of cells: '', Num (n_cells lib g), Endl] w))"

definition setup_system ::
  "('g, 'a, 'p, 'f) deal_II \<Rightarrow> ('g, 'a) Step4 \<Rightarrow> 'f world \<Rightarrow> (exc + ('g, 'a) Step4) \<times> 'f world" where
  "setup_system lib s w =
     (case distribute_dofs lib (discretisation s) of
        Inl e \<Rightarrow> (Inl e, w)
      | Inr g \<Rightarrow>
          (let w1 = print [Str ''   Number of degrees of freedom: '', Num (n_dofs lib g), Endl] w in
           case make_sparsity_pattern lib g of
             Inl e \<Rightarrow> (Inl e, w1)
           | Inr a \<Rightarrow>
               (Inr (s\<lparr>discretisation := g, system_matrix := a,
                       solution := replicate (n_dofs lib g) 0,
                       system_rhs := replicate (n_dofs lib g) 0\<rparr>), w1)))"

definition assemble_system ::
  "('g, 'a, 'p, 'f) deal_II \<Rightarrow> ('g, 'a) Step4 \<Rightarrow> 'f world \<Rightarrow> (exc + ('g, 'a) Step4) \<times> 'f world" where
  "assemble_system lib s w =
     (case bind_exc (assemble_cells lib (discretisation s) RightHandSide_value
                       (system_matrix s) (system_rhs s)) (\<lambda>(a, b).
           bind_exc (interpolate_boundary_values lib (discretisation s) 0 BoundaryValues_value)
             (\<lambda>boundary_values.
           apply_boundary_values lib boundary_values a (solution s) b)) of
        Inl e \<Rightarrow> (Inl e, w)
      | Inr (a, x, b) \<Rightarrow> (Inr (s\<lparr>system_matrix := a, solution := x, system_rhs := b\<rparr>), w))"

definition solve ::
  "('g, 'a, 'p, 'f) deal_II \<Rightarrow> ('g, 'a) Step4 \<Rightarrow> 'f world \<Rightarrow> (exc + ('g, 'a) Step4) \<times> 'f world" where
  "solve lib s w =
     (let solver_control = \<lparr>maxsteps = 1000, tol = 1 / 10 ^ 12\<rparr>;
          preconditioner = initialize (system_matrix s) 1.0
      in case solver_solve lib solver_control preconditioner
                (system_matrix s) (solution s) (system_rhs s) of
           Inl e \<Rightarrow> (Inl e, w)
         | Inr (x, last_step) \<Rightarrow>
             (Inr (s\<lparr>solution := x\<rparr>),
              print [Str ''   '', Num last_step,
                     Str '' CG iterations needed to obtain convergence.'', Endl] w))"

text \<open>\<^verbatim>\<open>output_results\<close>: the stream is opened after the patches are built, which
  creates the file or empties it, and \<^verbatim>\<open>write_vtk\<close> writes one block.  Opening the
  file is taken to succeed.\<close>

definition output_results ::
  "('g, 'a, 'p, 'f) deal_II \<Rightarrow> nat \<Rightarrow> ('g, 'a) Step4 \<Rightarrow> 'f world \<Rightarrow> (exc + unit) \<times> 'f world" where
  "output_results lib dimn s w =
     (let postprocessor = Postprocessor (debug_build lib) dimn;
          data_out = attach_dof_handler (discretisation s);
          data_out = add_data_vector data_out (Named (solution s) ''solution'');
          data_out = add_data_vector data_out (Derived (solution s) postprocessor)
      in case build_patches lib data_out of
           Inl e \<Rightarrow> (Inl e, w)
         | Inr patches \<Rightarrow>
             (let output = (if dimn = 2 then ''solution-2d.vtk'' else ''solution-3d.vtk'');
                  w1 = w\<lparr>files := (files w)(output \<mapsto> [])\<rparr>
              in case write_vtk lib patches of
                   Inl e \<Rightarrow> (Inl e, w1)
                 | Inr block \<Rightarrow> (Inr (), w1\<lparr>files := (files w1)(output \<mapsto> [block])\<rparr>)))"

definition run ::
  "('g, 'a, 'p, 'f) deal_II \<Rightarrow> nat \<Rightarrow> ('g, 'a) Step4 \<Rightarrow> 'f world \<Rightarrow> (exc + unit) \<times> 'f world" where
  "run lib dimn s w =
     (let w0 = print [Str ''Solving problem in '', Num dimn, Str '' space dimensions.'', Endl] w in
      bind_io (make_grid lib s) (\<lambda>s1.
      bind_io (setup_system lib s1) (\<lambda>s2.
      bind_io (assemble_system lib s2) (\<lambda>s3.
      bind_io (solve lib s3) (\<lambda>s4.
      output_results lib dimn s4)))) w0)"

subsection \<open>A small instance of the library\<close>

text \<open>The operations of the library instantiated by simple functions, to run the driver on
  concrete values: the mesh is the number of refinements, the patches are the number of
  data vectors, and the solver is \<open>SolverCG_solve\<close> on an iteration that keeps the start
  vector and has the residual norms \<open>res\<close>.\<close>

definition toy_library :: "(nat \<Rightarrow> real) \<Rightarrow> (nat, unit, nat, string) deal_II" where
  "toy_library res =
     \<lparr>debug_build = True,
      hyper_cube = (\<lambda>g a b. Inr 0),
      refine_global = (\<lambda>g n. Inr (g + n)),
      n_active_cells = (\<lambda>g. 4 ^ g),
      n_cells = (\<lambda>g. (4 ^ (g + 1) - 1) div 3),
      distribute_dofs = (\<lambda>g. Inr g),
      n_dofs = (\<lambda>g. (2 ^ (g + 1) + 1) ^ 2),
      make_sparsity_pattern = (\<lambda>g. Inr ()),
      assemble_cells = (\<lambda>g f a b. Inr (a, b)),
      interpolate_boundary_values = (\<lambda>g marker f. Inr Map.empty),
      apply_boundary_values = (\<lambda>bv a x b. Inr (a, x, b)),
      solver_solve = (\<lambda>sc P a x b. SolverCG_solve sc (\<lambda>k. (x, res k)) 0),
      build_patches = (\<lambda>data_out. Inr (length (snd data_out))),
      write_vtk = (\<lambda>p. Inr ''# vtk DataFile Version 3.0'')\<rparr>"

definition toy_Step4 :: "(nat, unit) Step4" where
  "toy_Step4 = \<lparr>discretisation = 0, system_matrix = (), solution = [], system_rhs = []\<rparr>"

definition empty_world :: "string world" where
  "empty_world = \<lparr>cout = [], files = Map.empty\<rparr>"


section \<open>Properties\<close>

declare component_loop.simps [simp del]
declare quadrature_loop.simps [simp del]
declare names_loop.simps [simp del]
declare SolverCG_solve.simps [simp del]

subsection \<open>The loops of the post-processor\<close>

lemma names_loop_replicate:
  "names_loop dimn d acc = acc @ replicate (dimn - d) ''Diretion''"
proof (induction dimn d acc rule: names_loop.induct)
  case (1 dimn d acc)
  show ?case
  proof (cases "d < dimn")
    case True
    then have "dimn - d = Suc (dimn - Suc d)" by simp
    with True 1 show ?thesis
      by (simp add: names_loop.simps [of dimn d] replicate_append_same)
  next
    case False
    then show ?thesis by (simp add: names_loop.simps [of dimn d])
  qed
qed

lemma scalar_product_self: "scalar_product g g = (\<Sum>x\<leftarrow>g. x\<^sup>2)"
  by (induction g) (simp_all add: scalar_product_def power2_eq_square)

lemma component_loop_result:
  "d \<le> dimn \<Longrightarrow> length g = dimn \<Longrightarrow> dimn \<le> length v \<Longrightarrow>
   component_loop dimn d g v l1 =
     Inr (take d v @ drop d g @ drop dimn v, l1 + (\<Sum>x\<leftarrow>drop d g. \<bar>x\<bar>))"
proof (induction dimn d g v l1 rule: component_loop.induct)
  case (1 dimn d g v l1)
  show ?case
  proof (cases "d < dimn")
    case True
    with 1 have dg: "d < length g" and dv: "d < length v" by simp_all
    have IH: "component_loop dimn (Suc d) g (v[d := g ! d]) (l1 + \<bar>g ! d\<bar>) =
       Inr (take (Suc d) (v[d := g ! d]) @ drop (Suc d) g @ drop dimn (v[d := g ! d]),
            l1 + \<bar>g ! d\<bar> + (\<Sum>x\<leftarrow>drop (Suc d) g. \<bar>x\<bar>))"
      using 1 True by simp
    have t: "take (Suc d) (v[d := g ! d]) = take d v @ [g ! d]"
      using dv by (simp add: take_Suc_conv_app_nth)
    have dr: "drop dimn (v[d := g ! d]) = drop dimn v"
      using True by simp
    have dg': "drop d g = g ! d # drop (Suc d) g"
      using dg by (simp add: Cons_nth_drop_Suc)
    show ?thesis
      using True dg dv
      by (simp add: component_loop.simps [of dimn d] vec_at_def vec_set_def bind_exc_def IH t dr dg')
  next
    case False
    with 1 have "d = dimn" by simp
    with 1 show ?thesis
      by (simp add: component_loop.simps [of dimn dimn])
  qed
qed

lemma point_body_result:
  assumes "length g = dimn" "length v = dimn + 2"
    and "debug \<longrightarrow> 0 \<le> (\<Sum>x\<leftarrow>g. x\<^sup>2) + 2 * u"
  shows "point_body debug dimn u g v =
    Inr (g @ [sqrt (max ((\<Sum>x\<leftarrow>g. x\<^sup>2) + 2 * u) 0) - (\<Sum>x\<leftarrow>g. \<bar>x\<bar>),
              sqrt (max ((\<Sum>x\<leftarrow>g. x\<^sup>2) + 2 * u) 0) + (\<Sum>x\<leftarrow>g. \<bar>x\<bar>)])"
proof -
  have c: "component_loop dimn 0 g v 0 = Inr (g @ drop dimn v, (\<Sum>x\<leftarrow>g. \<bar>x\<bar>))"
    using component_loop_result [of 0 dimn g v 0] assms by simp
  obtain a b where v: "drop dimn v = [a, b]"
  proof -
    have "length (drop dimn v) = 2" using assms by simp
    then show ?thesis using that
      by (metis (no_types, opaque_lifting) One_nat_def Suc_1 length_0_conv length_Suc_conv)
  qed
  show ?thesis
    using assms
    by (simp add: point_body_def c v bind_exc_def Assert_def std_sqrt_def vec_set_def
        scalar_product_self list_update_append Let_def)
qed


lemma quadrature_loop_result:
  assumes "q \<le> n" "length uh = n" "length duh = n" "length cq = n"
    and "\<forall>g\<in>set duh. length g = dimn"
    and "\<forall>k<n. q \<le> k \<longrightarrow> length (cq ! k) = dimn + 2"
    and "debug \<longrightarrow> (\<forall>k<n. q \<le> k \<longrightarrow> 0 \<le> (\<Sum>x\<leftarrow>duh ! k. x\<^sup>2) + 2 * uh ! k)"
  shows "quadrature_loop debug dimn n q uh duh cq =
    Inr (take q cq @
         map (\<lambda>k. duh ! k @
                [sqrt (max ((\<Sum>x\<leftarrow>duh ! k. x\<^sup>2) + 2 * uh ! k) 0) - (\<Sum>x\<leftarrow>duh ! k. \<bar>x\<bar>),
                 sqrt (max ((\<Sum>x\<leftarrow>duh ! k. x\<^sup>2) + 2 * uh ! k) 0) + (\<Sum>x\<leftarrow>duh ! k. \<bar>x\<bar>)])
             [q..<n])"
  using assms
proof (induction debug dimn n q uh duh cq rule: quadrature_loop.induct)
  case (1 debug dimn n q uh duh cq)
  let ?f = "\<lambda>k. duh ! k @
                [sqrt (max ((\<Sum>x\<leftarrow>duh ! k. x\<^sup>2) + 2 * uh ! k) 0) - (\<Sum>x\<leftarrow>duh ! k. \<bar>x\<bar>),
                 sqrt (max ((\<Sum>x\<leftarrow>duh ! k. x\<^sup>2) + 2 * uh ! k) 0) + (\<Sum>x\<leftarrow>duh ! k. \<bar>x\<bar>)]"
  show ?case
  proof (cases "q < n")
    case True
    have lg: "length (duh ! q) = dimn"
      using "1.prems" True by simp
    have lv: "length (cq ! q) = dimn + 2"
      using "1.prems" True by simp
    have rad: "debug \<longrightarrow> 0 \<le> (\<Sum>x\<leftarrow>duh ! q. x\<^sup>2) + 2 * uh ! q"
      using "1.prems" True by simp
    have pb: "point_body debug dimn (uh ! q) (duh ! q) (cq ! q) = Inr (?f q)"
      using point_body_result [OF lg lv rad] .
    have IH: "quadrature_loop debug dimn n (Suc q) uh duh (cq[q := ?f q]) =
        Inr (take (Suc q) (cq[q := ?f q]) @ map ?f [Suc q..<n])"
      using True "1.prems"
      by (intro "1.IH" [OF True]) auto
    have t: "take (Suc q) (cq[q := ?f q]) = take q cq @ [?f q]"
      using True "1.prems" by (simp add: take_Suc_conv_app_nth)
    have u: "[q..<n] = q # [Suc q..<n]"
      using True by (simp add: upt_conv_Cons)
    show ?thesis
      using True "1.prems"
      by (simp add: quadrature_loop.simps [of debug dimn n q] vec_at_def bind_exc_def pb IH t u)
  next
    case False
    with "1.prems" have "q = n" by simp
    with "1.prems" show ?thesis
      by (simp add: quadrature_loop.simps [of debug dimn n n])
  qed
qed

lemma to_unsigned_int_small: "n < 2 ^ 32 \<Longrightarrow> to_unsigned_int n = n"
  by (simp add: to_unsigned_int_def)

lemma compute_result:
  assumes "length uh < 2 ^ 32" "length duh = length uh" "length cq = length uh"
    and "\<forall>g\<in>set duh. length g = dimn"
    and "\<forall>v\<in>set cq. length v = dimn + 2"
    and "debug \<longrightarrow> uh \<noteq> [] \<and> (\<forall>q<length uh. 0 \<le> (\<Sum>x\<leftarrow>duh ! q. x\<^sup>2) + 2 * uh ! q)"
  shows "compute_derived_quantities_scalar debug dimn uh duh dduh normals points cq =
    Inr (map (\<lambda>q. duh ! q @
                [sqrt (max ((\<Sum>x\<leftarrow>duh ! q. x\<^sup>2) + 2 * uh ! q) 0) - (\<Sum>x\<leftarrow>duh ! q. \<bar>x\<bar>),
                 sqrt (max ((\<Sum>x\<leftarrow>duh ! q. x\<^sup>2) + 2 * uh ! q) 0) + (\<Sum>x\<leftarrow>duh ! q. \<bar>x\<bar>)])
             [0..<length uh])"
proof -
  have n: "to_unsigned_int (length uh) = length uh"
    using assms(1) by (rule to_unsigned_int_small)
  have ql: "quadrature_loop debug dimn (length uh) 0 uh duh cq =
    Inr (take 0 cq @ map (\<lambda>q. duh ! q @
                [sqrt (max ((\<Sum>x\<leftarrow>duh ! q. x\<^sup>2) + 2 * uh ! q) 0) - (\<Sum>x\<leftarrow>duh ! q. \<bar>x\<bar>),
                 sqrt (max ((\<Sum>x\<leftarrow>duh ! q. x\<^sup>2) + 2 * uh ! q) 0) + (\<Sum>x\<leftarrow>duh ! q. \<bar>x\<bar>)])
             [0..<length uh])"
    using assms by (intro quadrature_loop_result) auto
  have first: "debug \<Longrightarrow> cq \<noteq> [] \<and> length (cq ! 0) = dimn + 2"
    using assms by (cases cq) auto
  show ?thesis
  proof (cases debug)
    case True
    with first have "cq \<noteq> []" "length (cq ! 0) = dimn + 2" by simp_all
    with True assms(2,3,6) ql show ?thesis
      by (simp add: compute_derived_quantities_scalar_def n bind_exc_def Assert_def
          vec_at_def Let_def)
  next
    case False
    with ql show ?thesis
      by (simp add: compute_derived_quantities_scalar_def n bind_exc_def Assert_def Let_def)
  qed
qed


lemma component_loop_no_domain_error:
  "component_loop dimn d g v l1 \<noteq> Inl DomainError"
proof (induction dimn d g v l1 rule: component_loop.induct)
  case (1 dimn d g v l1)
  show ?case
  proof (cases "d < dimn \<and> d < length g \<and> d < length v")
    case True
    then show ?thesis
      using 1 [of "v[d := g ! d]" "g ! d"]
      by (simp add: component_loop.simps [of dimn d] vec_at_def vec_set_def bind_exc_def)
  next
    case False
    then show ?thesis
      by (auto simp add: component_loop.simps [of dimn d] vec_at_def vec_set_def bind_exc_def)
  qed
qed

lemma std_sqrt_max: "std_sqrt (max x 0) = Inr (sqrt (max x 0))"
  by (simp add: std_sqrt_def)

lemma point_body_no_domain_error:
  "point_body debug dimn u g v \<noteq> Inl DomainError"
proof (cases "component_loop dimn 0 g v 0")
  case (Inl e)
  with component_loop_no_domain_error [of dimn 0 g v 0] have "e \<noteq> DomainError" by auto
  with Inl show ?thesis
    by (simp add: point_body_def bind_exc_def Let_def)
next
  case (Inr r)
  then show ?thesis
    by (cases r)
       (auto simp add: point_body_def bind_exc_def Let_def std_sqrt_max Assert_def vec_set_def)
qed

lemma quadrature_loop_no_domain_error:
  "quadrature_loop debug dimn n q uh duh cq \<noteq> Inl DomainError"
proof (induction debug dimn n q uh duh cq rule: quadrature_loop.induct)
  case (1 debug dimn n q uh duh cq)
  show ?case
  proof (cases "q < n \<and> q < length duh \<and> q < length cq \<and> q < length uh")
    case True
    show ?thesis
    proof (cases "point_body debug dimn (uh ! q) (duh ! q) (cq ! q)")
      case (Inl e)
      with point_body_no_domain_error [of debug dimn "uh ! q" "duh ! q" "cq ! q"]
      have "e \<noteq> DomainError" by auto
      with Inl True show ?thesis
        by (simp add: quadrature_loop.simps [of debug dimn n q] vec_at_def bind_exc_def)
    next
      case (Inr v')
      with True 1 [of v'] show ?thesis
        by (simp add: quadrature_loop.simps [of debug dimn n q] vec_at_def bind_exc_def)
    qed
  next
    case False
    then show ?thesis
      by (auto simp add: quadrature_loop.simps [of debug dimn n q] vec_at_def bind_exc_def)
  qed
qed

lemma compute_no_domain_error:
  "compute_derived_quantities_scalar debug dimn uh duh dduh normals points cq \<noteq> Inl DomainError"
  using quadrature_loop_no_domain_error [of debug dimn "to_unsigned_int (length uh)" 0 uh duh cq]
  by (auto simp add: compute_derived_quantities_scalar_def bind_exc_def Assert_def vec_at_def Let_def)

lemma point_body_assert:
  assumes "length g = dimn" "dimn \<le> length v" "(\<Sum>x\<leftarrow>g. x\<^sup>2) + 2 * u < 0"
  shows "point_body True dimn u g v = Inl (ExcMessage ''Sqrt of negative!'')"
proof -
  have c: "component_loop dimn 0 g v 0 = Inr (g @ drop dimn v, (\<Sum>x\<leftarrow>g. \<bar>x\<bar>))"
    using component_loop_result [of 0 dimn g v 0] assms by simp
  show ?thesis
    using assms(3)
    by (simp add: point_body_def c bind_exc_def Assert_def scalar_product_self Let_def)
qed

lemma quadrature_loop_assert:
  assumes "debug" "k < n" "q \<le> k" "length uh = n" "length duh = n" "length cq = n"
    and "\<forall>g\<in>set duh. length g = dimn"
    and "\<forall>j<n. q \<le> j \<longrightarrow> length (cq ! j) = dimn + 2"
    and "(\<Sum>x\<leftarrow>duh ! k. x\<^sup>2) + 2 * uh ! k < 0"
  shows "quadrature_loop debug dimn n q uh duh cq = Inl (ExcMessage ''Sqrt of negative!'')"
  using assms
proof (induction debug dimn n q uh duh cq rule: quadrature_loop.induct)
  case (1 debug dimn n q uh duh cq)
  from "1.prems" have qn: "q < n" by simp
  have lg: "length (duh ! q) = dimn"
    using "1.prems" qn by simp
  have lv: "length (cq ! q) = dimn + 2"
    using "1.prems" qn by simp
  show ?case
  proof (cases "(\<Sum>x\<leftarrow>duh ! q. x\<^sup>2) + 2 * uh ! q < 0")
    case True
    have "point_body True dimn (uh ! q) (duh ! q) (cq ! q) = Inl (ExcMessage ''Sqrt of negative!'')"
      using lg lv True by (intro point_body_assert) simp_all
    then show ?thesis
      using qn "1.prems"
      by (simp add: quadrature_loop.simps [of _ dimn n q] vec_at_def bind_exc_def)
  next
    case False
    then have rad: "True \<longrightarrow> 0 \<le> (\<Sum>x\<leftarrow>duh ! q. x\<^sup>2) + 2 * uh ! q" by simp
    note pb = point_body_result [OF lg lv rad]
    from False "1.prems" have "k \<noteq> q" by auto
    with "1.prems" have k: "Suc q \<le> k" by simp
    have "quadrature_loop debug dimn n (Suc q) uh duh (cq[q := v']) =
        Inl (ExcMessage ''Sqrt of negative!'')" for v'
    proof (rule "1.IH" [OF qn])
      show "\<forall>j<n. Suc q \<le> j \<longrightarrow> length (cq[q := v'] ! j) = dimn + 2"
        using "1.prems" by simp
    qed (use "1.prems" k in simp_all)
    then show ?thesis
      using qn "1.prems"
      by (simp add: quadrature_loop.simps [of _ dimn n q] vec_at_def bind_exc_def pb)
  qed
qed

subsection \<open>The solver and the stages of the driver\<close>

lemma SolverCG_solve_converges:
  assumes "k0 \<le> k" "k \<le> maxsteps sc" "snd (it k) \<le> tol sc"
    and "\<forall>j. k0 \<le> j \<and> j < k \<longrightarrow> tol sc < snd (it j)"
  shows "SolverCG_solve sc it k0 = Inr (fst (it k), k)"
  using assms
proof (induction sc it k0 rule: SolverCG_solve.induct)
  case (1 sc it k0)
  show ?case
  proof (cases "k0 = k")
    case True
    with "1.prems" show ?thesis
      by (simp add: SolverCG_solve.simps [of sc it k] check_def)
  next
    case False
    with "1.prems" have lt: "k0 < k" by simp
    with "1.prems" have r: "tol sc < snd (it k0)" by auto
    from lt "1.prems" have "k0 < maxsteps sc" by simp
    with r have c: "check sc k0 (snd (it k0)) = iterate"
      by (simp add: check_def)
    have "SolverCG_solve sc it (Suc k0) = Inr (fst (it k), k)"
      using "1.prems" lt by (intro "1.IH" [OF c]) simp_all
    then show ?thesis
      by (simp add: SolverCG_solve.simps [of sc it k0] c)
  qed
qed

lemma SolverCG_solve_fails:
  assumes "k0 \<le> maxsteps sc"
    and "\<forall>j. k0 \<le> j \<and> j \<le> maxsteps sc \<longrightarrow> tol sc < snd (it j)"
  shows "SolverCG_solve sc it k0 = Inl (NoConvergence (maxsteps sc) (snd (it (maxsteps sc))))"
  using assms
proof (induction sc it k0 rule: SolverCG_solve.induct)
  case (1 sc it k0)
  show ?case
  proof (cases "k0 = maxsteps sc")
    case True
    with "1.prems" have "tol sc < snd (it k0)" by auto
    with True show ?thesis
      by (simp add: SolverCG_solve.simps [of sc it "maxsteps sc"] check_def)
  next
    case False
    with "1.prems" have lt: "k0 < maxsteps sc" by simp
    from "1.prems" have "tol sc < snd (it k0)" by auto
    with lt have c: "check sc k0 (snd (it k0)) = iterate"
      by (simp add: check_def)
    have "SolverCG_solve sc it (Suc k0) =
        Inl (NoConvergence (maxsteps sc) (snd (it (maxsteps sc))))"
      using "1.prems" lt by (intro "1.IH" [OF c]) simp_all
    then show ?thesis
      by (simp add: SolverCG_solve.simps [of sc it k0] c)
  qed
qed

lemma solve_converged:
  assumes "\<And>sc P a x b. solver_solve lib sc P a x b = SolverCG_solve sc (cg P a x b) 0"
    and "k \<le> 1000"
    and "snd (cg (initialize (system_matrix s) 1) (system_matrix s) (solution s)
               (system_rhs s) k) \<le> 1 / 10 ^ 12"
    and "\<forall>j<k. 1 / 10 ^ 12 < snd (cg (initialize (system_matrix s) 1)
               (system_matrix s) (solution s) (system_rhs s) j)"
  shows "solve lib s w =
    (Inr (s\<lparr>solution := fst (cg (initialize (system_matrix s) 1) (system_matrix s)
                                 (solution s) (system_rhs s) k)\<rparr>),
     print [Str ''   '', Num k, Str '' CG iterations needed to obtain convergence.'', Endl] w)"
proof -
  let ?sc = "\<lparr>maxsteps = 1000, tol = 1 / 10 ^ 12\<rparr>"
  let ?it = "cg (initialize (system_matrix s) 1) (system_matrix s) (solution s) (system_rhs s)"
  have "SolverCG_solve ?sc ?it 0 = Inr (fst (?it k), k)"
    using assms(2-4) by (intro SolverCG_solve_converges) simp_all
  then show ?thesis
    by (simp add: solve_def Let_def assms(1))
qed

lemma solve_not_converged:
  assumes "\<And>sc P a x b. solver_solve lib sc P a x b = SolverCG_solve sc (cg P a x b) 0"
    and "\<forall>j\<le>1000. 1 / 10 ^ 12 < snd (cg (initialize (system_matrix s) 1)
               (system_matrix s) (solution s) (system_rhs s) j)"
  shows "solve lib s w =
    (Inl (NoConvergence 1000 (snd (cg (initialize (system_matrix s) 1)
               (system_matrix s) (solution s) (system_rhs s) 1000))), w)"
proof -
  let ?sc = "\<lparr>maxsteps = 1000, tol = 1 / 10 ^ 12\<rparr>"
  let ?it = "cg (initialize (system_matrix s) 1) (system_matrix s) (solution s) (system_rhs s)"
  have "SolverCG_solve ?sc ?it 0 = Inl (NoConvergence (maxsteps ?sc) (snd (?it (maxsteps ?sc))))"
    using assms(2) by (intro SolverCG_solve_fails) simp_all
  then show ?thesis
    by (simp add: solve_def Let_def assms(1))
qed

lemma solve_throws:
  assumes "solver_solve lib \<lparr>maxsteps = 1000, tol = 1 / 10 ^ 12\<rparr>
             (initialize (system_matrix s) 1) (system_matrix s) (solution s) (system_rhs s) = Inl e"
  shows "solve lib s w = (Inl e, w)"
  using assms by (simp add: solve_def Let_def)

lemma run_solver_throws:
  assumes "make_grid lib s
             (print [Str ''Solving problem in '', Num dimn, Str '' space dimensions.'', Endl] w)
           = (Inr s1, w1)"
    and "setup_system lib s1 w1 = (Inr s2, w2)"
    and "assemble_system lib s2 w2 = (Inr s3, w3)"
    and "solver_solve lib \<lparr>maxsteps = 1000, tol = 1 / 10 ^ 12\<rparr>
           (initialize (system_matrix s3) 1) (system_matrix s3) (solution s3) (system_rhs s3) = Inl e"
  shows "run lib dimn s w = (Inl e, w3)"
  using assms(1-3) solve_throws [OF assms(4), of w3]
  by (simp add: run_def bind_io_def Let_def)

lemma make_grid_files: "files (snd (make_grid lib s w)) = files w"
  by (simp add: make_grid_def print_def split: sum.splits)

lemma setup_system_files: "files (snd (setup_system lib s w)) = files w"
  by (simp add: setup_system_def print_def Let_def split: sum.splits)

lemma assemble_system_files: "files (snd (assemble_system lib s w)) = files w"
  by (simp add: assemble_system_def split: sum.splits prod.splits)

lemma toy_make_grid:
  "make_grid (toy_library res) toy_Step4 w =
     (Inr (toy_Step4\<lparr>discretisation := 4\<rparr>),
      print [Str ''   Number of active cells: '', Num 256, Endl,
             Str ''   Total number of cells: '', Num 341, Endl] w)"
  by (simp add: make_grid_def toy_library_def toy_Step4_def bind_exc_def)

lemma toy_setup_system:
  "setup_system (toy_library res) (toy_Step4\<lparr>discretisation := 4\<rparr>) w =
      (Inr (toy_Step4\<lparr>discretisation := 4, solution := replicate 1089 0,
                        system_rhs := replicate 1089 0\<rparr>),
       print [Str ''   Number of degrees of freedom: '', Num 1089, Endl] w)"
  by (simp add: setup_system_def toy_library_def toy_Step4_def Let_def)

lemma toy_assemble_system: "assemble_system (toy_library res) s w = (Inr s, w)"
  by (simp add: assemble_system_def toy_library_def bind_exc_def)

lemma toy_solver_fails:
  assumes "\<forall>j\<le>1000. 1 / 10 ^ 12 < res j"
  shows "solver_solve (toy_library res) \<lparr>maxsteps = 1000, tol = 1 / 10 ^ 12\<rparr> P a x b =
    Inl (NoConvergence 1000 (res 1000))"
proof -
  let ?sc = "\<lparr>maxsteps = 1000, tol = 1 / 10 ^ 12\<rparr>"
  have "SolverCG_solve ?sc (\<lambda>k. (x, res k)) 0 =
      Inl (NoConvergence (maxsteps ?sc) (snd ((\<lambda>k. (x, res k)) (maxsteps ?sc))))"
    using assms by (intro SolverCG_solve_fails) simp_all
  then show ?thesis
    by (simp add: toy_library_def)
qed

lemma sqrt_25: "sqrt 25 = 5"
proof -
  have "sqrt (5\<^sup>2) = \<bar>5\<bar>" by (rule real_sqrt_abs)
  then show ?thesis by simp
qed

lemma sum_abs_nonneg: "0 \<le> (\<Sum>x\<leftarrow>g. \<bar>x :: real\<bar>)"
  by (induction g) simp_all

lemma compute_assert:
  assumes "q < length uh" "length uh < 2 ^ 32" "length duh = length uh" "length cq = length uh"
    and "\<forall>g\<in>set duh. length g = dimn"
    and "\<forall>v\<in>set cq. length v = dimn + 2"
    and "(\<Sum>x\<leftarrow>duh ! q. x\<^sup>2) + 2 * uh ! q < 0"
  shows "compute_derived_quantities_scalar True dimn uh duh dduh normals points cq =
    Inl (ExcMessage ''Sqrt of negative!'')"
proof -
  have n: "to_unsigned_int (length uh) = length uh"
    using assms(2) by (rule to_unsigned_int_small)
  have ql: "quadrature_loop True dimn (length uh) 0 uh duh cq = Inl (ExcMessage ''Sqrt of negative!'')"
    using assms by (intro quadrature_loop_assert [where k = q]) auto
  have "cq \<noteq> []" "length (cq ! 0) = dimn + 2"
    using assms by (cases cq; auto)+
  moreover have "uh \<noteq> []" using assms(1) by auto
  ultimately show ?thesis
    using assms(3,4) ql
    by (simp add: compute_derived_quantities_scalar_def n bind_exc_def Assert_def vec_at_def Let_def)
qed


section \<open>The claims\<close>

subsection \<open>The post-processor\<close>

text \<open>
  Claim C1.  For every quadrature point \<open>q\<close>, \<^verbatim>\<open>compute_derived_quantities_scalar\<close>
  produces a vector of \<open>dim + 2\<close> components: the first \<open>dim\<close> are the gradient
  \<^verbatim>\<open>duh[q]\<close>, component \<open>dim\<close> is the square root of \<open>max (|duh[q]|\<^sup>2 + 2 uh[q]) 0\<close> minus
  the sum of the absolute values of the components of \<^verbatim>\<open>duh[q]\<close>, and component
  \<open>dim + 1\<close> is the same square root plus that sum.  The hypotheses are the sizes the
  function asserts, the number of components the tensor type has, and, in a debug build,
  the asserted sign of the radicand (and one point at least, since the third assertion
  reads the first output vector).
\<close>

theorem compute_derived_quantities_scalar_values:
  assumes "length uh < 2 ^ 32" "length duh = length uh" "length cq = length uh"
    and "\<forall>g\<in>set duh. length g = dimn"
    and "\<forall>v\<in>set cq. length v = dimn + 2"
    and "debug \<longrightarrow> uh \<noteq> [] \<and> (\<forall>q<length uh. 0 \<le> (\<Sum>x\<leftarrow>duh ! q. x\<^sup>2) + 2 * uh ! q)"
  shows "\<exists>out. compute_derived_quantities_scalar debug dimn uh duh dduh normals points cq = Inr out \<and>
    length out = length uh \<and>
    (\<forall>q<length uh.
       length (out ! q) = dimn + 2 \<and>
       take dimn (out ! q) = duh ! q \<and>
       out ! q ! dimn =
         sqrt (max ((\<Sum>x\<leftarrow>duh ! q. x\<^sup>2) + 2 * uh ! q) 0) - (\<Sum>x\<leftarrow>duh ! q. \<bar>x\<bar>) \<and>
       out ! q ! (dimn + 1) =
         sqrt (max ((\<Sum>x\<leftarrow>duh ! q. x\<^sup>2) + 2 * uh ! q) 0) + (\<Sum>x\<leftarrow>duh ! q. \<bar>x\<bar>))"
proof -
  have len: "length (duh ! q) = dimn" if "q < length uh" for q
    using that assms(2,4) by simp
  show ?thesis
    unfolding compute_result [OF assms]
    by (simp add: len nth_append)
qed

text \<open>Two points in two dimensions, in a debug build: the gradient \<open>(3, 4)\<close> with value
  \<open>0\<close>, and the gradient \<open>(0, 0)\<close> with value \<open>1/2\<close>.\<close>

theorem compute_derived_quantities_scalar_values_witness:
  "\<exists>out. compute_derived_quantities_scalar True 2 [0, 1 / 2] [[3, 4], [0, 0]] [] [] []
            [[0, 0, 0, 0], [0, 0, 0, 0]] = Inr out \<and>
     length out = 2 \<and>
     take 2 (out ! 0) = [3, 4] \<and> out ! 0 ! 2 = - 2 \<and> out ! 0 ! 3 = 12 \<and>
     take 2 (out ! 1) = [0, 0] \<and> out ! 1 ! 2 = 1 \<and> out ! 1 ! 3 = 1"
proof -
  have h6: "True \<longrightarrow> [0, 1 / 2] \<noteq> [] \<and>
      (\<forall>q<length [0, 1 / 2 :: real].
         0 \<le> (\<Sum>x\<leftarrow>[[3, 4], [0, 0]] ! q. x\<^sup>2) + 2 * [0, 1 / 2 :: real] ! q)"
    by (simp add: less_Suc_eq)
  obtain out where o: "compute_derived_quantities_scalar True 2 [0, 1 / 2] [[3, 4], [0, 0]] [] [] []
            [[0, 0, 0, 0], [0, 0, 0, 0]] = Inr out"
    and l: "length out = 2"
    and q: "\<forall>q<2. length (out ! q) = 4 \<and>
       take 2 (out ! q) = [[3, 4], [0, 0]] ! q \<and>
       out ! q ! 2 =
         sqrt (max ((\<Sum>x\<leftarrow>[[3, 4], [0, 0]] ! q. x\<^sup>2) + 2 * [0, 1 / 2] ! q) 0) - (\<Sum>x\<leftarrow>[[3, 4], [0, 0]] ! q. \<bar>x\<bar>) \<and>
       out ! q ! 3 =
         sqrt (max ((\<Sum>x\<leftarrow>[[3, 4], [0, 0]] ! q. x\<^sup>2) + 2 * [0, 1 / 2] ! q) 0) + (\<Sum>x\<leftarrow>[[3, 4], [0, 0]] ! q. \<bar>x\<bar>)"
    using compute_derived_quantities_scalar_values
      [of "[0, 1 / 2]" "[[3, 4], [0, 0]]" "[[0, 0, 0, 0], [0, 0, 0, 0]]" 2 True "[]" "[]" "[]", OF _ _ _ _ _ h6]
    by auto
  from q have "length (out ! 0) = 4 \<and> take 2 (out ! 0) = [3, 4] \<and> out ! 0 ! 2 = - 2 \<and> out ! 0 ! 3 = 12"
    by (simp add: sqrt_25)
  moreover from q have "take 2 (out ! 1) = [0, 0] \<and> out ! 1 ! 2 = 1 \<and> out ! 1 ! 3 = 1"
    by simp
  ultimately show ?thesis using o l by simp
qed


text \<open>
  Claim C3, as stated: at every quadrature point \<open>sMax \<ge> sMin \<ge> 0\<close>.  The second
  inequality fails: the gradient \<open>(3, 4)\<close> with the value \<open>0\<close> passes the assertion
  (the radicand is \<open>25\<close>) and gives \<open>sMin = 5 - 7 = - 2\<close>.
\<close>

theorem sMin_negative_counterexample:
  "compute_derived_quantities_scalar True 2 [0] [[3, 4]] [] [] [] [[0, 0, 0, 0]] =
     Inr [[3, 4, - 2, 12]] \<and>
   \<not> (0 \<le> [[3, 4, - 2, 12 :: real]] ! 0 ! 2)"
proof -
  have "compute_derived_quantities_scalar True 2 [0] [[3, 4]] [] [] [] [[0, 0, 0, 0]] =
     Inr [[3, 4, - 2, 12]]"
    by (subst compute_result) (simp_all add: sqrt_25)
  then show ?thesis by simp
qed

text \<open>
  Claim C3, amended: at every quadrature point \<open>sMin \<le> sMax\<close> and \<open>0 \<le> sMax\<close>.  Nothing
  is said of the sign of \<open>sMin\<close>.
\<close>

theorem sMax_sMin_order:
  assumes "length uh < 2 ^ 32" "length duh = length uh" "length cq = length uh"
    and "\<forall>g\<in>set duh. length g = dimn"
    and "\<forall>v\<in>set cq. length v = dimn + 2"
    and "debug \<longrightarrow> uh \<noteq> [] \<and> (\<forall>q<length uh. 0 \<le> (\<Sum>x\<leftarrow>duh ! q. x\<^sup>2) + 2 * uh ! q)"
  shows "\<exists>out. compute_derived_quantities_scalar debug dimn uh duh dduh normals points cq = Inr out \<and>
    (\<forall>q<length uh.
       out ! q ! dimn \<le> out ! q ! (dimn + 1) \<and>
       0 \<le> out ! q ! (dimn + 1))"
proof -
  have len: "length (duh ! q) = dimn" if "q < length uh" for q
    using that assms(2,4) by simp
  show ?thesis
    unfolding compute_result [OF assms]
    by (simp add: len nth_append sum_abs_nonneg)
qed

text \<open>The two points of the witness above: the gradient \<open>(3, 4)\<close> with value \<open>0\<close> and the
  gradient \<open>(0, 0)\<close> with value \<open>1/2\<close>.\<close>

theorem sMax_sMin_order_witness:
  "\<exists>out. compute_derived_quantities_scalar True 2 [0, 1 / 2] [[3, 4], [0, 0]] [] [] []
            [[0, 0, 0, 0], [0, 0, 0, 0]] = Inr out \<and>
     out ! 0 ! 2 \<le> out ! 0 ! 3 \<and> 0 \<le> out ! 0 ! 3 \<and>
     out ! 1 ! 2 \<le> out ! 1 ! 3 \<and> 0 \<le> out ! 1 ! 3"
proof -
  have h6: "True \<longrightarrow> [0, 1 / 2] \<noteq> [] \<and>
      (\<forall>q<length [0, 1 / 2 :: real].
         0 \<le> (\<Sum>x\<leftarrow>[[3, 4], [0, 0]] ! q. x\<^sup>2) + 2 * [0, 1 / 2 :: real] ! q)"
    by (simp add: less_Suc_eq)
  obtain out where o: "compute_derived_quantities_scalar True 2 [0, 1 / 2] [[3, 4], [0, 0]] [] [] []
            [[0, 0, 0, 0], [0, 0, 0, 0]] = Inr out"
    and q: "\<forall>q<2. out ! q ! 2 \<le> out ! q ! 3 \<and> 0 \<le> out ! q ! 3"
    using sMax_sMin_order
      [of "[0, 1 / 2]" "[[3, 4], [0, 0]]" "[[0, 0, 0, 0], [0, 0, 0, 0]]" 2 True "[]" "[]" "[]", OF _ _ _ _ _ h6]
    by auto
  from q have "out ! 0 ! 2 \<le> out ! 0 ! 3 \<and> 0 \<le> out ! 0 ! 3"
    by simp
  moreover from q have "out ! 1 ! 2 \<le> out ! 1 ! 3 \<and> 0 \<le> out ! 1 ! 3"
    by simp
  ultimately show ?thesis using o by simp
qed

text \<open>
  Claim C7.  A negative radicand is asserted against, and the radicand is clamped at zero
  before the square root: no input makes \<^verbatim>\<open>std::sqrt\<close> see a negative number (the
  function never ends in \<open>DomainError\<close>).  Where the sizes are right and the radicand at
  some point \<open>q\<close> is negative, a debug build stops at the assertion with the message
  \<^verbatim>\<open>Sqrt of negative!\<close>, and a release build takes the square root of \<open>0\<close>.
\<close>

theorem sqrt_argument_never_negative:
  "compute_derived_quantities_scalar debug dimn uh duh dduh normals points cq \<noteq> Inl DomainError \<and>
   (q < length uh \<and> length uh < 2 ^ 32 \<and> length duh = length uh \<and> length cq = length uh \<and>
    (\<forall>g\<in>set duh. length g = dimn) \<and> (\<forall>v\<in>set cq. length v = dimn + 2) \<and>
    (\<Sum>x\<leftarrow>duh ! q. x\<^sup>2) + 2 * uh ! q < 0 \<longrightarrow>
      compute_derived_quantities_scalar True dimn uh duh dduh normals points cq =
        Inl (ExcMessage ''Sqrt of negative!'') \<and>
      (\<exists>out. compute_derived_quantities_scalar False dimn uh duh dduh normals points cq = Inr out \<and>
         out ! q ! dimn = sqrt 0 - (\<Sum>x\<leftarrow>duh ! q. \<bar>x\<bar>) \<and>
         out ! q ! (dimn + 1) = sqrt 0 + (\<Sum>x\<leftarrow>duh ! q. \<bar>x\<bar>)))"
proof (intro conjI impI)
  show "compute_derived_quantities_scalar debug dimn uh duh dduh normals points cq \<noteq> Inl DomainError"
    by (rule compute_no_domain_error)
next
  assume a: "q < length uh \<and> length uh < 2 ^ 32 \<and> length duh = length uh \<and> length cq = length uh \<and>
    (\<forall>g\<in>set duh. length g = dimn) \<and> (\<forall>v\<in>set cq. length v = dimn + 2) \<and>
    (\<Sum>x\<leftarrow>duh ! q. x\<^sup>2) + 2 * uh ! q < 0"
  then show "compute_derived_quantities_scalar True dimn uh duh dduh normals points cq =
        Inl (ExcMessage ''Sqrt of negative!'')"
    by (intro compute_assert [of q]) simp_all
  have len: "length (duh ! q) = dimn"
    using a by simp
  have "compute_derived_quantities_scalar False dimn uh duh dduh normals points cq =
    Inr (map (\<lambda>q. duh ! q @
                [sqrt (max ((\<Sum>x\<leftarrow>duh ! q. x\<^sup>2) + 2 * uh ! q) 0) - (\<Sum>x\<leftarrow>duh ! q. \<bar>x\<bar>),
                 sqrt (max ((\<Sum>x\<leftarrow>duh ! q. x\<^sup>2) + 2 * uh ! q) 0) + (\<Sum>x\<leftarrow>duh ! q. \<bar>x\<bar>)])
             [0..<length uh])"
    using a by (intro compute_result) simp_all
  then show "\<exists>out. compute_derived_quantities_scalar False dimn uh duh dduh normals points cq = Inr out \<and>
         out ! q ! dimn = sqrt 0 - (\<Sum>x\<leftarrow>duh ! q. \<bar>x\<bar>) \<and>
         out ! q ! (dimn + 1) = sqrt 0 + (\<Sum>x\<leftarrow>duh ! q. \<bar>x\<bar>)"
    using a len by (simp add: nth_append max_def)
qed

theorem sqrt_argument_never_negative_witness:
  "compute_derived_quantities_scalar True 2 [- 1] [[1, 0]] [] [] [] [[0, 0, 0, 0]] =
      Inl (ExcMessage ''Sqrt of negative!'') \<and>
   (\<exists>out. compute_derived_quantities_scalar False 2 [- 1] [[1, 0]] [] [] [] [[0, 0, 0, 0]] = Inr out \<and>
      out ! 0 ! 2 = - 1 \<and> out ! 0 ! 3 = 1)"
  using sqrt_argument_never_negative [of True 2 "[- 1]" "[[1, 0]]" "[]" "[]" "[]" "[[0, 0, 0, 0]]" 0]
  by simp

text \<open>
  Claim C9.  The result does not depend on the second derivatives, the normals or the
  points: two calls that differ in these arguments only give the same result.
\<close>

theorem unused_arguments:
  "compute_derived_quantities_scalar debug dimn uh duh dduh normals points cq =
   compute_derived_quantities_scalar debug dimn uh duh dduh' normals' points' cq"
  by (simp add: compute_derived_quantities_scalar_def)

text \<open>
  Claim C4, evaluated on the code for \<open>dim = 2\<close>: the vector components are interpreted
  as parts of a vector and followed by the scalars \<^verbatim>\<open>sMin\<close> and \<^verbatim>\<open>sMax\<close>, but the name
  pushed \<open>dim\<close> times is spelled \<^verbatim>\<open>Diretion\<close>, not \<^verbatim>\<open>Direction\<close>.
\<close>

theorem names_typo:
  "get_names 2 = [''Diretion'', ''Diretion'', ''sMin'', ''sMax''] \<and>
   get_names 2 \<noteq> [''Direction'', ''Direction'', ''sMin'', ''sMax''] \<and>
   get_data_component_interpretation 2 =
     [component_is_part_of_vector, component_is_part_of_vector,
      component_is_scalar, component_is_scalar]"
  by (simp add: get_names_def names_loop_replicate get_data_component_interpretation_def
      numeral_2_eq_2)

text \<open>
  Claim C10.  For every \<open>dim\<close>, \<^verbatim>\<open>get_names\<close> and
  \<^verbatim>\<open>get_data_component_interpretation\<close> return vectors of length \<open>dim + 2\<close> that are
  aligned by index: \<open>dim\<close> times the name of the vector component with
  \<open>component_is_part_of_vector\<close>, then \<^verbatim>\<open>sMin\<close> and \<^verbatim>\<open>sMax\<close>, each with
  \<open>component_is_scalar\<close>.
\<close>

theorem names_and_interpretation_aligned:
  "length (get_names dimn) = dimn + 2 \<and>
   length (get_data_component_interpretation dimn) = dimn + 2 \<and>
   zip (get_names dimn) (get_data_component_interpretation dimn) =
     replicate dimn (''Diretion'', component_is_part_of_vector) @
     [(''sMin'', component_is_scalar), (''sMax'', component_is_scalar)]"
  by (simp add: get_names_def names_loop_replicate get_data_component_interpretation_def)

subsection \<open>The coefficient functions\<close>

text \<open>
  Claim C5.  The right-hand side is \<open>1\<close> and the boundary value is \<open>0\<close> at every point
  and for every component; neither depends on its arguments.
\<close>

theorem coefficient_functions_constant:
  "RightHandSide_value p component = 1 \<and> BoundaryValues_value p component = 0 \<and>
   RightHandSide_value p component = RightHandSide_value p' component' \<and>
   BoundaryValues_value p component = BoundaryValues_value p' component'"
  by (simp add: RightHandSide_value_def BoundaryValues_value_def)

subsection \<open>The driver\<close>

text \<open>
  Claim C6.  The solve stage calls the conjugate-gradient solver with the symmetric
  successive over-relaxation preconditioner at relaxation \<open>1\<close>, under a control with the
  tolerance \<^verbatim>\<open>1e-12\<close> and the cap \<open>1000\<close>.  For a library whose solver is the iteration
  \<open>SolverCG_solve\<close> on the iterates \<open>cg\<close>: the stage ends at the first step \<open>k \<le> 1000\<close>
  whose residual norm is at most the tolerance, with that iterate as the solution and \<open>k\<close>
  printed; and when no step up to \<open>1000\<close> reaches the tolerance it ends at step \<open>1000\<close>
  with the failure \<open>NoConvergence\<close>.
\<close>

theorem solve_stops_at_tolerance_or_cap:
  assumes "\<And>sc P a x b. solver_solve lib sc P a x b = SolverCG_solve sc (cg P a x b) 0"
  shows "(let it = cg \<lparr>precondition_matrix = system_matrix s, relaxation = 1\<rparr>
               (system_matrix s) (solution s) (system_rhs s)
    in (\<forall>k\<le>1000. snd (it k) \<le> 1 / 10 ^ 12 \<and> (\<forall>j<k. 1 / 10 ^ 12 < snd (it j)) \<longrightarrow>
          solve lib s w =
            (Inr (s\<lparr>solution := fst (it k)\<rparr>),
             print [Str ''   '', Num k, Str '' CG iterations needed to obtain convergence.'',
                    Endl] w)) \<and>
       ((\<forall>j\<le>1000. 1 / 10 ^ 12 < snd (it j)) \<longrightarrow>
          solve lib s w = (Inl (NoConvergence 1000 (snd (it 1000))), w)))"
  unfolding Let_def
proof (intro conjI allI impI)
  fix k
  assume "k \<le> 1000"
    and "snd (cg \<lparr>precondition_matrix = system_matrix s, relaxation = 1\<rparr>
               (system_matrix s) (solution s) (system_rhs s) k) \<le> 1 / 10 ^ 12 \<and>
         (\<forall>j<k. 1 / 10 ^ 12 < snd (cg \<lparr>precondition_matrix = system_matrix s, relaxation = 1\<rparr>
               (system_matrix s) (solution s) (system_rhs s) j))"
  then show "solve lib s w =
            (Inr (s\<lparr>solution := fst (cg \<lparr>precondition_matrix = system_matrix s, relaxation = 1\<rparr>
               (system_matrix s) (solution s) (system_rhs s) k)\<rparr>),
             print [Str ''   '', Num k, Str '' CG iterations needed to obtain convergence.'',
                    Endl] w)"
    using solve_converged [of lib cg k s w, OF assms] by (simp add: initialize_def)
next
  assume "\<forall>j\<le>1000. 1 / 10 ^ 12 < snd (cg \<lparr>precondition_matrix = system_matrix s, relaxation = 1\<rparr>
               (system_matrix s) (solution s) (system_rhs s) j)"
  then show "solve lib s w = (Inl (NoConvergence 1000 (snd (cg \<lparr>precondition_matrix = system_matrix s, relaxation = 1\<rparr>
               (system_matrix s) (solution s) (system_rhs s) 1000))), w)"
    using solve_not_converged [of lib cg s w, OF assms] by (simp add: initialize_def)
qed

text \<open>An iteration that reaches the tolerance at step \<open>3\<close>, and one that never does.\<close>

theorem solve_stops_at_tolerance_or_cap_witness:
  "solve (toy_library (\<lambda>k. if k < 3 then 1 else 0)) toy_Step4 empty_world =
     (Inr toy_Step4,
      \<lparr>cout = [Str ''   '', Num 3, Str '' CG iterations needed to obtain convergence.'', Endl],
       files = Map.empty\<rparr>) \<and>
   solve (toy_library (\<lambda>k. 1)) toy_Step4 empty_world = (Inl (NoConvergence 1000 1), empty_world)"
proof -
  have lib: "solver_solve (toy_library res) sc P a x b = SolverCG_solve sc ((\<lambda>P a x b k. (x, res k)) P a x b) 0"
    for res sc and P :: "unit PreconditionSSOR" and a x b
    by (simp add: toy_library_def)
  have "solve (toy_library (\<lambda>k. if k < 3 then 1 else 0)) toy_Step4 empty_world =
     (Inr toy_Step4,
      \<lparr>cout = [Str ''   '', Num 3, Str '' CG iterations needed to obtain convergence.'', Endl],
       files = Map.empty\<rparr>)"
    using solve_stops_at_tolerance_or_cap
      [of "toy_library (\<lambda>k. if k < 3 then 1 else 0)" _ toy_Step4 empty_world, OF lib]
    by (simp add: Let_def toy_Step4_def empty_world_def print_def)
  moreover have "solve (toy_library (\<lambda>k. 1)) toy_Step4 empty_world =
      (Inl (NoConvergence 1000 1), empty_world)"
    using solve_stops_at_tolerance_or_cap [of "toy_library (\<lambda>k. 1)" _ toy_Step4 empty_world, OF lib]
    by (simp add: Let_def)
  ultimately show ?thesis by simp
qed

text \<open>
  Claim C2, as stated: when the solver reaches the cap of \<open>1000\<close> steps without
  convergence, the pipeline continues and the iterate is written to the output file.
  It fails on a library whose solver throws at the cap, as \<open>SolverCG_solve\<close> does: the
  run ends with the exception after the line on the degrees of freedom, and no file
  exists afterwards.
\<close>

theorem nonconvergence_not_fatal_counterexample:
  "run (toy_library (\<lambda>k. 1)) 2 toy_Step4 empty_world =
     (Inl (NoConvergence 1000 1),
      \<lparr>cout = [Str ''Solving problem in '', Num 2, Str '' space dimensions.'', Endl,
               Str ''   Number of active cells: '', Num 256, Endl,
               Str ''   Total number of cells: '', Num 341, Endl,
               Str ''   Number of degrees of freedom: '', Num 1089, Endl],
       files = Map.empty\<rparr>)"
proof -
  have 4: "solver_solve (toy_library (\<lambda>k. 1)) \<lparr>maxsteps = 1000, tol = 1 / 10 ^ 12\<rparr>
      (initialize (system_matrix s) 1) (system_matrix s) (solution s) (system_rhs s) =
      Inl (NoConvergence 1000 1)" for s :: "(nat, unit) Step4"
    by (rule toy_solver_fails) simp
  show ?thesis
    using run_solver_throws [OF toy_make_grid toy_setup_system toy_assemble_system 4,
        of 2 empty_world]
    by (simp add: print_def empty_world_def)
qed

text \<open>
  Claim C2, amended: \<^verbatim>\<open>solve\<close> and \<^verbatim>\<open>run\<close> do not catch what the solver throws.  When
  the stages before the solver succeed and the solver call of the solve stage (control:
  \<open>1000\<close> steps, tolerance \<^verbatim>\<open>1e-12\<close>; preconditioner: relaxation \<open>1\<close>) throws \<open>e\<close>, the run
  ends with \<open>e\<close> in the surroundings left by the assembly: the line on the iteration count
  is not printed, the output stage is not executed, and the files are those from before the
  run.
\<close>

theorem run_stops_when_solver_throws:
  assumes "make_grid lib s
             (print [Str ''Solving problem in '', Num dimn, Str '' space dimensions.'', Endl] w)
           = (Inr s1, w1)"
    and "setup_system lib s1 w1 = (Inr s2, w2)"
    and "assemble_system lib s2 w2 = (Inr s3, w3)"
    and "solver_solve lib \<lparr>maxsteps = 1000, tol = 1 / 10 ^ 12\<rparr>
           \<lparr>precondition_matrix = system_matrix s3, relaxation = 1\<rparr>
           (system_matrix s3) (solution s3) (system_rhs s3) = Inl e"
  shows "run lib dimn s w = (Inl e, w3) \<and> files w3 = files w"
proof -
  have "files w1 =
      files (print [Str ''Solving problem in '', Num dimn, Str '' space dimensions.'', Endl] w)"
    using make_grid_files [of lib s
        "print [Str ''Solving problem in '', Num dimn, Str '' space dimensions.'', Endl] w"]
    unfolding assms(1) by simp
  then have "files w1 = files w"
    by (simp add: print_def)
  moreover have "files w2 = files w1"
    using setup_system_files [of lib s1 w1] by (simp add: assms(2))
  moreover have "files w3 = files w2"
    using assemble_system_files [of lib s2 w2] by (simp add: assms(3))
  moreover have "run lib dimn s w = (Inl e, w3)"
    using assms(4) by (intro run_solver_throws [OF assms(1-3)]) (simp add: initialize_def)
  ultimately show ?thesis
    by simp
qed

text \<open>Three dimensions and residual norms that stay at \<open>2\<close>.\<close>

theorem run_stops_when_solver_throws_witness:
  "run (toy_library (\<lambda>k. 2)) 3 toy_Step4 empty_world =
     (Inl (NoConvergence 1000 2),
      \<lparr>cout = [Str ''Solving problem in '', Num 3, Str '' space dimensions.'', Endl,
               Str ''   Number of active cells: '', Num 256, Endl,
               Str ''   Total number of cells: '', Num 341, Endl,
               Str ''   Number of degrees of freedom: '', Num 1089, Endl],
       files = Map.empty\<rparr>)"
proof -
  have 4: "solver_solve (toy_library (\<lambda>k. 2)) \<lparr>maxsteps = 1000, tol = 1 / 10 ^ 12\<rparr>
      \<lparr>precondition_matrix = system_matrix s, relaxation = 1\<rparr>
      (system_matrix s) (solution s) (system_rhs s) =
      Inl (NoConvergence 1000 2)" for s :: "(nat, unit) Step4"
    by (rule toy_solver_fails) simp
  show ?thesis
    using run_stops_when_solver_throws [OF toy_make_grid toy_setup_system toy_assemble_system 4,
        of 3 empty_world]
    by (simp add: print_def empty_world_def)
qed

text \<open>
  Claim C8.  When the patches are built and written without an exception, the output
  stage leaves the block in the file \<^verbatim>\<open>solution-2d.vtk\<close> for \<open>dim = 2\<close> and in the file
  \<^verbatim>\<open>solution-3d.vtk\<close> for \<open>dim = 3\<close>, and touches no other file.
\<close>

theorem output_results_file_name:
  assumes "build_patches lib
             (add_data_vector
               (add_data_vector (attach_dof_handler (discretisation s))
                  (Named (solution s) ''solution''))
               (Derived (solution s) (Postprocessor (debug_build lib) dimn))) = Inr patches"
    and "write_vtk lib patches = Inr block"
  shows "(dimn = 2 \<longrightarrow>
           output_results lib dimn s w =
             (Inr (), w\<lparr>files := (files w)(''solution-2d.vtk'' \<mapsto> [block])\<rparr>)) \<and>
         (dimn = 3 \<longrightarrow>
           output_results lib dimn s w =
             (Inr (), w\<lparr>files := (files w)(''solution-3d.vtk'' \<mapsto> [block])\<rparr>))"
  using assms by (auto simp add: output_results_def Let_def)

theorem output_results_file_name_witness:
  "output_results (toy_library (\<lambda>k. 0)) 2 toy_Step4 empty_world =
     (Inr (), \<lparr>cout = [], files = [''solution-2d.vtk'' \<mapsto> [''# vtk DataFile Version 3.0'']]\<rparr>) \<and>
   output_results (toy_library (\<lambda>k. 0)) 3 toy_Step4 empty_world =
     (Inr (), \<lparr>cout = [], files = [''solution-3d.vtk'' \<mapsto> [''# vtk DataFile Version 3.0'']]\<rparr>)"
proof -
  have b: "build_patches (toy_library (\<lambda>k. 0))
             (add_data_vector
               (add_data_vector (attach_dof_handler (discretisation toy_Step4))
                  (Named (solution toy_Step4) ''solution''))
               (Derived (solution toy_Step4)
                  (Postprocessor (debug_build (toy_library (\<lambda>k. 0))) dimn))) = Inr 2" for dimn
    by (simp add: toy_library_def add_data_vector_def attach_dof_handler_def)
  have v: "write_vtk (toy_library (\<lambda>k. 0)) 2 = Inr ''# vtk DataFile Version 3.0''"
    by (simp add: toy_library_def)
  show ?thesis
    using output_results_file_name [OF b v, of 2 empty_world]
      output_results_file_name [OF b v, of 3 empty_world]
    by (simp add: empty_world_def)
qed

end
